theory Spec2Isabelle
  imports Main
begin

section \<open>The channel endpoint of mojo/edk/system/channel\_endpoint.cc\<close>

text \<open>
  The endpoint sits between one client and one channel. Its fields are guarded by a
  single lock; every method body that runs under the lock is one atomic step of the model.
  The channel and the client are collaborators whose code is elsewhere: what they return
  is a parameter of the model, and every call made to them is appended to a trace, so that
  the order and the arguments of the calls can be stated.
  A failed \<open>DCHECK\<close> ends the run with an error, as it does in a debug build.
\<close>

subsection \<open>Data\<close>

text \<open>
  Modelled from the spec: the type \<open>ChannelEndpointId\<close> is declared in a header that is
  not part of the sources. A routing id is either valid or not, and the id built by the
  default constructor (the one \<open>ResetChannelNoLock\<close> assigns and the destructor checks)
  is the invalid one. The id wraps a number and zero is the invalid id.
\<close>

datatype ChannelEndpointId = ChannelEndpointId nat

fun is_valid :: "ChannelEndpointId \<Rightarrow> bool" where
  "is_valid (ChannelEndpointId v) = (v \<noteq> 0)"

definition invalid_id :: ChannelEndpointId where
  "invalid_id = ChannelEndpointId 0"

text \<open>Channels and clients are objects reached by pointer; a pointer is the object's
  name, and a null pointer is \<open>None\<close>.\<close>

type_synonym Channel = nat
type_synonym ChannelEndpointClient = nat

text \<open>Of a message only its identity (the payload) and its two routing ids matter.\<close>

record MessageInTransit =
  payload :: nat
  source_id :: ChannelEndpointId
  destination_id :: ChannelEndpointId

text \<open>
  Modelled from the spec: \<open>MessageInTransitQueue\<close> is declared outside the sources. It
  is an ordered sequence of messages: \<open>AddMessage\<close> appends at the back,
  \<open>GetMessage\<close> removes the front and returns it, \<open>IsEmpty\<close> tests for the empty
  sequence.
\<close>

type_synonym MessageInTransitQueue = "MessageInTransit list"

definition AddMessage :: "MessageInTransit \<Rightarrow> MessageInTransitQueue \<Rightarrow> MessageInTransitQueue" where
  "AddMessage m q = q @ [m]"

definition IsEmpty :: "MessageInTransitQueue \<Rightarrow> bool" where
  "IsEmpty q = (q = [])"

text \<open>\<open>GetMessage\<close> is only called on a queue that \<open>IsEmpty\<close> has found non-empty.\<close>

definition GetMessage :: "MessageInTransitQueue \<Rightarrow> MessageInTransit \<times> MessageInTransitQueue" where
  "GetMessage q = (hd q, tl q)"

record ChannelEndpoint =
  client :: "ChannelEndpointClient option"
  client_port :: nat
  channel :: "Channel option"
  local_id :: ChannelEndpointId
  remote_id :: ChannelEndpointId
  channel_message_queue :: MessageInTransitQueue
  is_detached_from_channel :: bool

text \<open>The calls the endpoint makes to its collaborators, with their arguments and, where
  the call returns one, its result.\<close>

datatype event =
    WriteMessage Channel MessageInTransit bool
  | DetachEndpoint Channel ChannelEndpointId ChannelEndpointId
  | ClientOnReadMessage ChannelEndpointClient nat MessageInTransit bool
  | ClientOnDetachFromChannel ChannelEndpointClient nat
  | LogWarning string
  | YieldCurrentThread

record world =
  ep :: ChannelEndpoint
  trace :: "event list"

text \<open>
  What the collaborators do is not in the sources, so it is a parameter: how a message is
  serialized for a channel, whether the channel accepts a write, and whether a client
  accepts a delivered message. The two answers may depend on everything that happened
  before the call.
\<close>

record collaborators =
  SerializeAndCloseDispatchers :: "Channel \<Rightarrow> MessageInTransit \<Rightarrow> MessageInTransit"
  Channel_WriteMessage :: "world \<Rightarrow> Channel \<Rightarrow> MessageInTransit \<Rightarrow> bool"
  Client_OnReadMessage :: "world \<Rightarrow> ChannelEndpointClient \<Rightarrow> nat \<Rightarrow> MessageInTransit \<Rightarrow> bool"

text \<open>A run ends early when a \<open>DCHECK\<close> fails (the error names the checked
  expression) or when a null pointer is dereferenced.\<close>

datatype error = DCHECK_failed string | Null_dereference string

definition emit :: "event \<Rightarrow> world \<Rightarrow> world" where
  "emit e w = w\<lparr>trace := trace w @ [e]\<rparr>"

subsection \<open>Construction\<close>

definition ChannelEndpoint_new ::
  "ChannelEndpointClient option \<Rightarrow> nat \<Rightarrow> MessageInTransitQueue option \<Rightarrow> error + ChannelEndpoint" where
  "ChannelEndpoint_new cl port message_queue =
     (if cl = None \<and> message_queue = None then Inl (DCHECK_failed ''client_ || message_queue'')
      else Inr \<lparr>client = cl, client_port = port, channel = None,
                local_id = invalid_id, remote_id = invalid_id,
                channel_message_queue = (case message_queue of None \<Rightarrow> [] | Some q \<Rightarrow> q),
                is_detached_from_channel = False\<rparr>)"

subsection \<open>The helpers that run under the lock\<close>

definition WriteMessageNoLock ::
  "collaborators \<Rightarrow> MessageInTransit option \<Rightarrow> world \<Rightarrow> error + bool \<times> world" where
  "WriteMessageNoLock env message w =
     (case message of
        None \<Rightarrow> Inl (DCHECK_failed ''message'')
      | Some m \<Rightarrow>
         (case channel (ep w) of
            None \<Rightarrow> Inl (DCHECK_failed ''channel_'')
          | Some ch \<Rightarrow>
              if \<not> is_valid (local_id (ep w)) then Inl (DCHECK_failed ''local_id_.is_valid()'')
              else if \<not> is_valid (remote_id (ep w)) then Inl (DCHECK_failed ''remote_id_.is_valid()'')
              else
                let m1 = SerializeAndCloseDispatchers env ch m;
                    m2 = m1\<lparr>source_id := local_id (ep w)\<rparr>;
                    m3 = m2\<lparr>destination_id := remote_id (ep w)\<rparr>;
                    r = Channel_WriteMessage env w ch m3
                in Inr (r, emit (WriteMessage ch m3 r) w)))"

definition ResetChannelNoLock :: "world \<Rightarrow> error + world" where
  "ResetChannelNoLock w =
     (if channel (ep w) = None then Inl (DCHECK_failed ''channel_'')
      else if \<not> is_valid (local_id (ep w)) then Inl (DCHECK_failed ''local_id_.is_valid()'')
      else if \<not> is_valid (remote_id (ep w)) then Inl (DCHECK_failed ''remote_id_.is_valid()'')
      else if is_detached_from_channel (ep w) then Inl (DCHECK_failed ''!is_detached_from_channel_'')
      else Inr (w\<lparr>ep := (ep w)\<lparr>channel := None, local_id := invalid_id, remote_id := invalid_id,
                                 is_detached_from_channel := True\<rparr>\<rparr>))"

subsection \<open>The methods\<close>

definition EnqueueMessage ::
  "collaborators \<Rightarrow> MessageInTransit option \<Rightarrow> world \<Rightarrow> error + bool \<times> world" where
  "EnqueueMessage env message w =
     (case message of
        None \<Rightarrow> Inl (DCHECK_failed ''message'')
      | Some m \<Rightarrow>
          if channel (ep w) = None
          then Inr (True, w\<lparr>ep := (ep w)\<lparr>channel_message_queue :=
                                 AddMessage m (channel_message_queue (ep w))\<rparr>\<rparr>)
          else WriteMessageNoLock env (Some m) w)"

definition ReplaceClient ::
  "ChannelEndpointClient option \<Rightarrow> nat \<Rightarrow> world \<Rightarrow> error + bool \<times> world" where
  "ReplaceClient cl port w =
     (if cl = None then Inl (DCHECK_failed ''client'')
      else if client (ep w) = None then Inl (DCHECK_failed ''client_'')
      else if \<not> (cl \<noteq> client (ep w) \<or> port \<noteq> client_port (ep w))
        then Inl (DCHECK_failed ''client != client_.get() || client_port != client_port_'')
      else Inr (\<not> is_detached_from_channel (ep w),
                w\<lparr>ep := (ep w)\<lparr>client := cl, client_port := port\<rparr>\<rparr>))"

definition DetachFromClient :: "world \<Rightarrow> error + world" where
  "DetachFromClient w =
     (if client (ep w) = None then Inl (DCHECK_failed ''client_'')
      else
        let w1 = w\<lparr>ep := (ep w)\<lparr>client := None\<rparr>\<rparr> in
        (case channel (ep w1) of
           None \<Rightarrow> Inr w1
         | Some ch \<Rightarrow>
             ResetChannelNoLock (emit (DetachEndpoint ch (local_id (ep w1)) (remote_id (ep w1))) w1)))"

text \<open>The loop of \<open>AttachAndRun\<close> that empties the queue: each round takes the front
  message out of the queue, writes it, and logs a warning when the write failed.\<close>

function drain_queue :: "collaborators \<Rightarrow> world \<Rightarrow> error + world" where
  "drain_queue env w =
     (if IsEmpty (channel_message_queue (ep w)) then Inr w
      else
        (case GetMessage (channel_message_queue (ep w)) of
           (m, q) \<Rightarrow>
             (case WriteMessageNoLock env (Some m) (w\<lparr>ep := (ep w)\<lparr>channel_message_queue := q\<rparr>\<rparr>) of
                Inl e \<Rightarrow> Inl e
              | Inr (r, w1) \<Rightarrow>
                  drain_queue env
                    (if \<not> r then emit (LogWarning ''Failed to write enqueue message to channel'') w1
                     else w1))))"
  by pat_completeness auto
termination
  by (relation "measure (\<lambda>(env, w). length (channel_message_queue (ep w)))")
     (auto simp: WriteMessageNoLock_def emit_def Let_def IsEmpty_def GetMessage_def
           split: option.splits if_splits)

definition AttachAndRun ::
  "collaborators \<Rightarrow> Channel option \<Rightarrow> ChannelEndpointId \<Rightarrow> ChannelEndpointId \<Rightarrow> world \<Rightarrow> error + world" where
  "AttachAndRun env ch lid rid w =
     (if ch = None then Inl (DCHECK_failed ''channel'')
      else if \<not> is_valid lid then Inl (DCHECK_failed ''local_id.is_valid()'')
      else if \<not> is_valid rid then Inl (DCHECK_failed ''remote_id.is_valid()'')
      else if channel (ep w) \<noteq> None then Inl (DCHECK_failed ''!channel_'')
      else if is_valid (local_id (ep w)) then Inl (DCHECK_failed ''!local_id_.is_valid()'')
      else if is_valid (remote_id (ep w)) then Inl (DCHECK_failed ''!remote_id_.is_valid()'')
      else
        (case drain_queue env (w\<lparr>ep := (ep w)\<lparr>channel := ch, local_id := lid, remote_id := rid\<rparr>\<rparr>) of
           Inl e \<Rightarrow> Inl e
         | Inr w1 \<Rightarrow>
            (case client (ep w1) of
               Some c \<Rightarrow> Inr w1
             | None \<Rightarrow>
                (case channel (ep w1) of
                   None \<Rightarrow> Inl (Null_dereference ''channel_'')
                 | Some ch1 \<Rightarrow>
                     ResetChannelNoLock
                       (emit (DetachEndpoint ch1 (local_id (ep w1)) (remote_id (ep w1))) w1)))))"

definition DetachFromChannel :: "world \<Rightarrow> error + world" where
  "DetachFromChannel w =
     (let snapshot = (case client (ep w) of None \<Rightarrow> None | Some c \<Rightarrow> Some (c, client_port (ep w)));
          locked = (if channel (ep w) \<noteq> None then ResetChannelNoLock w
                    else if \<not> is_detached_from_channel (ep w)
                      then Inl (DCHECK_failed ''is_detached_from_channel_'')
                    else Inr w)
      in case locked of
           Inl e \<Rightarrow> Inl e
         | Inr w1 \<Rightarrow>
            (case snapshot of
               None \<Rightarrow> Inr w1
             | Some (c, port) \<Rightarrow> Inr (emit (ClientOnDetachFromChannel c port) w1)))"

subsection \<open>Calls from other threads\<close>

text \<open>
  The methods above hold the lock for all they do to the fields, so calls made by several
  threads take effect one after the other. A call other than \<open>OnReadMessage\<close> is a value
  of type \<open>call\<close>; its boolean result, where it has one, goes to its caller and is not
  kept.
\<close>

datatype call =
    CallEnqueueMessage "MessageInTransit option"
  | CallReplaceClient "ChannelEndpointClient option" nat
  | CallDetachFromClient
  | CallAttachAndRun "Channel option" ChannelEndpointId ChannelEndpointId
  | CallDetachFromChannel

fun perform :: "collaborators \<Rightarrow> call \<Rightarrow> world \<Rightarrow> error + world" where
  "perform env (CallEnqueueMessage message) w = map_sum id snd (EnqueueMessage env message w)"
| "perform env (CallReplaceClient cl port) w = map_sum id snd (ReplaceClient cl port w)"
| "perform env CallDetachFromClient w = DetachFromClient w"
| "perform env (CallAttachAndRun ch lid rid) w = AttachAndRun env ch lid rid w"
| "perform env CallDetachFromChannel w = DetachFromChannel w"

fun perform_all :: "collaborators \<Rightarrow> call list \<Rightarrow> world \<Rightarrow> error + world" where
  "perform_all env [] w = Inr w"
| "perform_all env (c # cs) w =
     (case perform env c w of Inl e \<Rightarrow> Inl e | Inr w1 \<Rightarrow> perform_all env cs w1)"

subsection \<open>Delivery of an inbound message\<close>

text \<open>
  \<open>OnReadMessage\<close> releases the lock twice in every round of its loop: before it calls
  the client, and after the client has returned false. What other threads do to the
  endpoint in these windows is given by a schedule, a list of lists of calls: window
  \<open>2 * k\<close> is the one before the client call of round \<open>k\<close>, window \<open>2 * k + 1\<close> the one
  after it. Beyond the end of the schedule nothing interferes. The local variables
  \<open>client\<close> and \<open>client_port\<close> of the method are the pair \<open>(cl, port)\<close>.
\<close>

definition window :: "nat \<Rightarrow> call list list \<Rightarrow> call list" where
  "window n sched = (if n < length sched then sched ! n else [])"

function OnReadMessage_loop ::
  "collaborators \<Rightarrow> call list list \<Rightarrow> MessageInTransit \<Rightarrow>
   ChannelEndpointClient option \<times> nat \<Rightarrow> world \<Rightarrow> error + world" where
  "OnReadMessage_loop env sched message (cl, port) w =
     (if channel (ep w) = None \<or> client (ep w) = None then Inr w
      else if \<not> (client (ep w) \<noteq> cl \<or> client_port (ep w) \<noteq> port)
        then Inl (DCHECK_failed ''client_ != client || client_port_ != client_port'')
      else
        (case client (ep w) of
           None \<Rightarrow> Inr w
         | Some c \<Rightarrow>
            (case perform_all env (window 0 sched) w of
               Inl e \<Rightarrow> Inl e
             | Inr w1 \<Rightarrow>
                 let r = Client_OnReadMessage env w1 c (client_port (ep w)) message;
                     w2 = emit (ClientOnReadMessage c (client_port (ep w)) message r) w1
                 in if r then Inr w2
                    else
                      (case perform_all env (window 1 sched) (emit YieldCurrentThread w2) of
                         Inl e \<Rightarrow> Inl e
                       | Inr w3 \<Rightarrow>
                           OnReadMessage_loop env (drop 2 sched) message
                             (Some c, client_port (ep w)) w3))))"
  by pat_completeness auto
termination
proof (relation "measure (\<lambda>(env, sched, message, (cl, port), w).
          2 * length sched +
          (if client (ep w) = cl \<and> client_port (ep w) = port then 0 else 1))", goal_cases)
  case 1
  show ?case by simp
next
  case (2 env sched message cl port w c w1 r w2 w3)
  show ?case
  proof (cases sched)
    case Nil
    with 2 show ?thesis
      by (auto simp: window_def emit_def)
  next
    case (Cons cs rest)
    then show ?thesis
      by (cases rest) auto
  qed
qed

declare OnReadMessage_loop.simps [simp del]

definition OnReadMessage ::
  "collaborators \<Rightarrow> call list list \<Rightarrow> MessageInTransit \<Rightarrow> world \<Rightarrow> error + world" where
  "OnReadMessage env sched message w = OnReadMessage_loop env sched message (None, 0) w"

subsection \<open>Notions used to state the properties\<close>

text \<open>The three positions of the endpoint with respect to its channel.\<close>

definition Unattached :: "ChannelEndpoint \<Rightarrow> bool" where
  "Unattached e = (channel e = None \<and> \<not> is_valid (local_id e) \<and> \<not> is_valid (remote_id e) \<and>
                   \<not> is_detached_from_channel e)"

definition Attached :: "ChannelEndpoint \<Rightarrow> bool" where
  "Attached e = (channel e \<noteq> None \<and> is_valid (local_id e) \<and> is_valid (remote_id e) \<and>
                 \<not> is_detached_from_channel e)"

definition Detached :: "ChannelEndpoint \<Rightarrow> bool" where
  "Detached e = (channel e = None \<and> \<not> is_valid (local_id e) \<and> \<not> is_valid (remote_id e) \<and>
                 is_detached_from_channel e)"

text \<open>The channel is present exactly when both ids are valid, and the ids are valid or
  invalid together.\<close>

definition ids_follow_channel :: "ChannelEndpoint \<Rightarrow> bool" where
  "ids_follow_channel e =
     (if channel e = None then \<not> is_valid (local_id e) \<and> \<not> is_valid (remote_id e)
      else is_valid (local_id e) \<and> is_valid (remote_id e))"

text \<open>What \<open>WriteMessageNoLock\<close> hands to the channel for a message: the serialized
  message with both routing ids set.\<close>

definition stamp ::
  "collaborators \<Rightarrow> Channel \<Rightarrow> ChannelEndpointId \<Rightarrow> ChannelEndpointId \<Rightarrow> MessageInTransit \<Rightarrow> MessageInTransit" where
  "stamp env ch lid rid m =
     (SerializeAndCloseDispatchers env ch m)\<lparr>source_id := lid, destination_id := rid\<rparr>"

text \<open>The messages a trace hands to a channel, in order, whatever the write returned.\<close>

fun written :: "event list \<Rightarrow> (Channel \<times> MessageInTransit) list" where
  "written [] = []"
| "written (WriteMessage ch m r # es) = (ch, m) # written es"
| "written (e # es) = written es"

text \<open>Every failed write of a trace is followed at once by a warning in the log.\<close>

fun failures_logged :: "event list \<Rightarrow> bool" where
  "failures_logged [] = True"
| "failures_logged (WriteMessage ch m r # es) =
     ((r \<or> (case es of LogWarning s # es' \<Rightarrow> True | _ \<Rightarrow> False)) \<and> failures_logged es)"
| "failures_logged (e # es) = failures_logged es"

text \<open>The client deliveries of a trace, in order: the client, the port, the message and
  what the client returned.\<close>

type_synonym delivery = "ChannelEndpointClient \<times> nat \<times> MessageInTransit \<times> bool"

fun deliveries :: "event list \<Rightarrow> delivery list" where
  "deliveries [] = []"
| "deliveries (ClientOnReadMessage c port m r # es) = (c, port, m, r) # deliveries es"
| "deliveries (e # es) = deliveries es"





definition enqueue_calls :: "MessageInTransit list \<Rightarrow> call list" where
  "enqueue_calls ms = map (\<lambda>m. CallEnqueueMessage (Some m)) ms"

fun is_attach :: "call \<Rightarrow> bool" where
  "is_attach (CallAttachAndRun ch lid rid) = True"
| "is_attach c = False"

subsection \<open>Concrete collaborators and endpoints\<close>

text \<open>Collaborators that leave a message as it is when they serialize it; the first
  accepts every write and every delivery, the second refuses every write.\<close>

definition accepting :: collaborators where
  "accepting = \<lparr>SerializeAndCloseDispatchers = (\<lambda>ch m. m),
                Channel_WriteMessage = (\<lambda>w ch m. True),
                Client_OnReadMessage = (\<lambda>w c port m. True)\<rparr>"

definition refusing_writes :: collaborators where
  "refusing_writes = \<lparr>SerializeAndCloseDispatchers = (\<lambda>ch m. m),
                      Channel_WriteMessage = (\<lambda>w ch m. False),
                      Client_OnReadMessage = (\<lambda>w c port m. True)\<rparr>"


definition msg :: "nat \<Rightarrow> MessageInTransit" where
  "msg n = \<lparr>payload = n, source_id = invalid_id, destination_id = invalid_id\<rparr>"

text \<open>The endpoint as the constructor leaves it when given a client, a port and no queue,
  and the same endpoint after \<open>AttachAndRun\<close> with channel 7 and the ids 1 and 2.\<close>

definition fresh :: "ChannelEndpointClient option \<Rightarrow> nat \<Rightarrow> MessageInTransitQueue \<Rightarrow> world" where
  "fresh cl port q =
     \<lparr>ep = \<lparr>client = cl, client_port = port, channel = None,
            local_id = invalid_id, remote_id = invalid_id,
            channel_message_queue = q, is_detached_from_channel = False\<rparr>,
      trace = []\<rparr>"

definition attached :: "ChannelEndpointClient option \<Rightarrow> nat \<Rightarrow> world" where
  "attached cl port =
     \<lparr>ep = \<lparr>client = cl, client_port = port, channel = Some 7,
            local_id = ChannelEndpointId 1, remote_id = ChannelEndpointId 2,
            channel_message_queue = [], is_detached_from_channel = False\<rparr>,
      trace = []\<rparr>"

text \<open>The attached endpoint after \<open>DetachFromChannel\<close>, and after \<open>DetachFromClient\<close>.\<close>

definition detached_by_channel :: world where
  "detached_by_channel =
     \<lparr>ep = \<lparr>client = Some 1, client_port = 0, channel = None,
            local_id = invalid_id, remote_id = invalid_id,
            channel_message_queue = [], is_detached_from_channel = True\<rparr>,
      trace = [ClientOnDetachFromChannel 1 0]\<rparr>"

definition detached_by_client :: world where
  "detached_by_client =
     \<lparr>ep = \<lparr>client = None, client_port = 0, channel = None,
            local_id = invalid_id, remote_id = invalid_id,
            channel_message_queue = [], is_detached_from_channel = True\<rparr>,
      trace = [DetachEndpoint 7 (ChannelEndpointId 1) (ChannelEndpointId 2)]\<rparr>"

text \<open>The endpoint of \<open>fresh (Some 1) 0 []\<close> after \<open>AttachAndRun\<close> with channel 7 and the
  ids 1 and 2, \<open>DetachFromChannel\<close>, and a second \<open>AttachAndRun\<close> with channel 8 and the
  ids 3 and 4.\<close>

definition reattached :: world where
  "reattached =
     \<lparr>ep = \<lparr>client = Some 1, client_port = 0, channel = Some 8,
            local_id = ChannelEndpointId 3, remote_id = ChannelEndpointId 4,
            channel_message_queue = [], is_detached_from_channel = True\<rparr>,
      trace = [ClientOnDetachFromChannel 1 0]\<rparr>"

section \<open>Properties\<close>

subsection \<open>Auxiliary facts\<close>

lemma invalid_id_not_valid [simp]: "\<not> is_valid invalid_id"
  by (simp add: invalid_id_def)

text \<open>The constructor builds an endpoint that has never had a channel.\<close>

lemma ChannelEndpoint_new_Unattached:
  "ChannelEndpoint_new cl port q = Inr e \<Longrightarrow> Unattached e \<and> ids_follow_channel e"
  by (auto simp: ChannelEndpoint_new_def Unattached_def ids_follow_channel_def split: if_splits)

lemma ChannelEndpoint_new_fresh:
  "ChannelEndpoint_new (Some c) port None = Inr (ep (fresh (Some c) port []))"
  "ChannelEndpoint_new cl port (Some q) = Inr (ep (fresh cl port q))"
  by (simp_all add: ChannelEndpoint_new_def fresh_def)

lemma written_append [simp]: "written (xs @ ys) = written xs @ written ys"
  by (induction xs rule: written.induct) auto

lemma deliveries_append [simp]: "deliveries (xs @ ys) = deliveries xs @ deliveries ys"
  by (induction xs rule: deliveries.induct) auto

lemma perform_all_append:
  "perform_all env (cs @ ds) w =
     (case perform_all env cs w of Inl e \<Rightarrow> Inl e | Inr w1 \<Rightarrow> perform_all env ds w1)"
  by (induction cs arbitrary: w) (auto split: sum.splits)

lemma enqueue_unattached:
  "channel (ep w) = None \<Longrightarrow>
   perform_all env (enqueue_calls ms) w =
     Inr (w\<lparr>ep := (ep w)\<lparr>channel_message_queue := channel_message_queue (ep w) @ ms\<rparr>\<rparr>)"
proof (induction ms arbitrary: w)
  case Nil
  then show ?case by (simp add: enqueue_calls_def)
next
  case (Cons m ms)
  then show ?case
    by (simp add: enqueue_calls_def EnqueueMessage_def AddMessage_def)
qed

lemma WriteMessageNoLock_attached:
  assumes "channel (ep w) = Some ch" "is_valid (local_id (ep w))" "is_valid (remote_id (ep w))"
  shows "WriteMessageNoLock env (Some m) w =
     Inr (Channel_WriteMessage env w ch (stamp env ch (local_id (ep w)) (remote_id (ep w)) m),
          emit (WriteMessage ch (stamp env ch (local_id (ep w)) (remote_id (ep w)) m)
                  (Channel_WriteMessage env w ch
                     (stamp env ch (local_id (ep w)) (remote_id (ep w)) m))) w)"
  using assms by (simp add: WriteMessageNoLock_def stamp_def Let_def)

lemma enqueue_attached:
  assumes "channel (ep w) = Some ch" "is_valid (local_id (ep w))" "is_valid (remote_id (ep w))"
  shows "\<exists>w' new. perform_all env (enqueue_calls ms) w = Inr w' \<and> ep w' = ep w \<and>
           trace w' = trace w @ new \<and>
           written new = map (\<lambda>m. (ch, stamp env ch (local_id (ep w)) (remote_id (ep w)) m)) ms"
  using assms
proof (induction ms arbitrary: w)
  case Nil
  then show ?case by (simp add: enqueue_calls_def)
next
  case (Cons m ms)
  let ?m = "stamp env ch (local_id (ep w)) (remote_id (ep w)) m"
  let ?w1 = "emit (WriteMessage ch ?m (Channel_WriteMessage env w ch ?m)) w"
  have first: "perform env (CallEnqueueMessage (Some m)) w = Inr ?w1"
    using Cons.prems by (simp add: EnqueueMessage_def WriteMessageNoLock_attached)
  have ep1: "ep ?w1 = ep w" by (simp add: emit_def)
  from Cons.IH[of ?w1] Cons.prems ep1
  obtain w' new where rest: "perform_all env (enqueue_calls ms) ?w1 = Inr w'" "ep w' = ep w"
      "trace w' = trace ?w1 @ new"
      "written new = map (\<lambda>m. (ch, stamp env ch (local_id (ep w)) (remote_id (ep w)) m)) ms"
    by auto
  have "perform_all env (enqueue_calls (m # ms)) w = Inr w'"
    using first rest(1) by (simp add: enqueue_calls_def)
  moreover have "trace w' = trace w @ (WriteMessage ch ?m (Channel_WriteMessage env w ch ?m) # new)"
    using rest(3) by (simp add: emit_def)
  moreover have "written (WriteMessage ch ?m (Channel_WriteMessage env w ch ?m) # new) =
      map (\<lambda>m. (ch, stamp env ch (local_id (ep w)) (remote_id (ep w)) m)) (m # ms)"
    using rest(4) by simp
  ultimately show ?case using rest(2) by blast
qed

text \<open>The loop that empties the queue, on an endpoint that has its channel and ids: it
  ends, the queue is empty afterwards, every queued message was handed to the channel in
  queue order whatever the earlier writes returned, and each failure left a warning.\<close>

lemma drain_queue_attached:
  assumes "channel (ep w) = Some ch" "is_valid (local_id (ep w))" "is_valid (remote_id (ep w))"
  shows "\<exists>w' new. drain_queue env w = Inr w' \<and>
        ep w' = (ep w)\<lparr>channel_message_queue := []\<rparr> \<and>
        trace w' = trace w @ new \<and>
        written new = map (\<lambda>m. (ch, stamp env ch (local_id (ep w)) (remote_id (ep w)) m))
                          (channel_message_queue (ep w)) \<and>
        failures_logged new \<and> deliveries new = []"
  using assms
proof (induction "channel_message_queue (ep w)" arbitrary: w)
  case Nil
  have "drain_queue env w = Inr w"
    using Nil.hyps by (subst drain_queue.simps) (simp add: IsEmpty_def)
  moreover have "ep w = (ep w)\<lparr>channel_message_queue := []\<rparr>"
    using Nil.hyps by simp
  moreover have "trace w = trace w @ []" by simp
  ultimately show ?case using Nil.hyps
    by (metis list.simps(8) written.simps(1) failures_logged.simps(1) deliveries.simps(1))
next
  case (Cons m q)
  let ?w0 = "w\<lparr>ep := (ep w)\<lparr>channel_message_queue := q\<rparr>\<rparr>"
  let ?m = "stamp env ch (local_id (ep w)) (remote_id (ep w)) m"
  let ?r = "Channel_WriteMessage env ?w0 ch ?m"
  let ?w1 = "emit (WriteMessage ch ?m ?r) ?w0"
  let ?log = "LogWarning ''Failed to write enqueue message to channel''"
  let ?w2 = "if \<not> ?r then emit ?log ?w1 else ?w1"
  let ?pre = "WriteMessage ch ?m ?r # (if ?r then [] else [?log])"
  have wr: "WriteMessageNoLock env (Some m) ?w0 = Inr (?r, ?w1)"
    using Cons.prems by (simp add: WriteMessageNoLock_attached)
  have step: "drain_queue env w = drain_queue env ?w2"
    using Cons.hyps(2)[symmetric] wr
    by (subst drain_queue.simps) (simp add: IsEmpty_def GetMessage_def)
  have ep2: "ep ?w2 = (ep w)\<lparr>channel_message_queue := q\<rparr>"
    by (simp add: emit_def)
  have tr2: "trace ?w2 = trace w @ ?pre"
    by (simp add: emit_def)
  have "q = channel_message_queue (ep ?w2)" using ep2 by simp
  from Cons.hyps(1)[OF this] Cons.prems ep2
  obtain w' new where w': "drain_queue env ?w2 = Inr w'"
      "ep w' = (ep ?w2)\<lparr>channel_message_queue := []\<rparr>"
      "trace w' = trace ?w2 @ new"
      "written new = map (\<lambda>m. (ch, stamp env ch (local_id (ep w)) (remote_id (ep w)) m)) q"
      "failures_logged new" "deliveries new = []"
    by (auto simp: emit_def)
  have a: "drain_queue env w = Inr w'" using step w'(1) by simp
  have b: "ep w' = (ep w)\<lparr>channel_message_queue := []\<rparr>" using w'(2) ep2 by simp
  have c: "trace w' = trace w @ (?pre @ new)" using w'(3) tr2 by simp
  have d: "written (?pre @ new) =
      map (\<lambda>m. (ch, stamp env ch (local_id (ep w)) (remote_id (ep w)) m))
          (channel_message_queue (ep w))"
    using w'(4) Cons.hyps(2)[symmetric] by simp
  have e: "failures_logged (?pre @ new)" using w'(5) by simp
  have f: "deliveries (?pre @ new) = []" using w'(6) by simp
  from a b c d e f show ?case by blast
qed

text \<open>\<open>AttachAndRun\<close> on an endpoint that has never had a channel.\<close>

lemma AttachAndRun_unattached:
  assumes "Unattached (ep w)" "is_valid lid" "is_valid rid"
  shows "\<exists>w' new. AttachAndRun env (Some ch) lid rid w = Inr w' \<and>
        trace w' = trace w @ new @
                   (if client (ep w) = None then [DetachEndpoint ch lid rid] else []) \<and>
        written new = map (\<lambda>m. (ch, stamp env ch lid rid m)) (channel_message_queue (ep w)) \<and>
        failures_logged new \<and> deliveries new = [] \<and>
        ep w' = (if client (ep w) = None
                 then (ep w)\<lparr>channel := None, local_id := invalid_id, remote_id := invalid_id,
                              channel_message_queue := [], is_detached_from_channel := True\<rparr>
                 else (ep w)\<lparr>channel := Some ch, local_id := lid, remote_id := rid,
                              channel_message_queue := []\<rparr>)"
proof -
  let ?w0 = "w\<lparr>ep := (ep w)\<lparr>channel := Some ch, local_id := lid, remote_id := rid\<rparr>\<rparr>"
  from drain_queue_attached[of ?w0 ch env] assms(2,3)
  obtain w1 new where d: "drain_queue env ?w0 = Inr w1"
      "ep w1 = (ep ?w0)\<lparr>channel_message_queue := []\<rparr>"
      "trace w1 = trace w @ new"
      "written new = map (\<lambda>m. (ch, stamp env ch lid rid m)) (channel_message_queue (ep w))"
      "failures_logged new" "deliveries new = []"
    by auto
  show ?thesis
  proof (cases "client (ep w)")
    case (Some c)
    have "AttachAndRun env (Some ch) lid rid w = Inr w1"
      using assms d(1,2) Some by (simp add: AttachAndRun_def Unattached_def)
    moreover have "trace w1 = trace w @ new @ (if client (ep w) = None then [DetachEndpoint ch lid rid] else [])"
      using d(3) Some by simp
    moreover have "ep w1 = (ep w)\<lparr>channel := Some ch, local_id := lid, remote_id := rid,
                              channel_message_queue := []\<rparr>"
      using d(2) by simp
    ultimately show ?thesis using d(4,5,6) Some by auto
  next
    case None
    let ?w2 = "emit (DetachEndpoint ch lid rid) w1"
    let ?w3 = "?w2\<lparr>ep := (ep ?w2)\<lparr>channel := None, local_id := invalid_id, remote_id := invalid_id,
                                 is_detached_from_channel := True\<rparr>\<rparr>"
    have r: "ResetChannelNoLock ?w2 = Inr ?w3"
      using assms d(2) by (simp add: ResetChannelNoLock_def emit_def Unattached_def)
    have "AttachAndRun env (Some ch) lid rid w = Inr ?w3"
      using assms d(1,2) None r by (simp add: AttachAndRun_def Unattached_def)
    moreover have "trace ?w3 = trace w @ new @ (if client (ep w) = None then [DetachEndpoint ch lid rid] else [])"
      using d(3) None by (simp add: emit_def)
    moreover have "ep ?w3 = (ep w)\<lparr>channel := None, local_id := invalid_id, remote_id := invalid_id,
                              channel_message_queue := [], is_detached_from_channel := True\<rparr>"
      using d(2) by (simp add: emit_def)
    ultimately show ?thesis using d(4,5,6) None by auto
  qed
qed

text \<open>When the loop that empties the queue ends without a failed check, it has emptied the
  queue, touched no other field, and called no client.\<close>

lemma drain_queue_Inr:
  assumes "drain_queue env w = Inr w'"
  shows "ep w' = (ep w)\<lparr>channel_message_queue := []\<rparr> \<and>
         (\<exists>new. trace w' = trace w @ new \<and> deliveries new = [])"
proof (cases "channel_message_queue (ep w) = []")
  case True
  then have "drain_queue env w = Inr w"
    by (subst drain_queue.simps) (simp add: IsEmpty_def)
  with assms True show ?thesis by auto
next
  case False
  have ok: "channel (ep w) \<noteq> None \<and> is_valid (local_id (ep w)) \<and> is_valid (remote_id (ep w))"
  proof (rule ccontr)
    assume "\<not> ?thesis"
    then have "\<exists>e. drain_queue env w = Inl e"
      using False
      by (subst drain_queue.simps)
         (auto simp: IsEmpty_def GetMessage_def WriteMessageNoLock_def split: option.splits)
    with assms show False by auto
  qed
  then obtain ch where "channel (ep w) = Some ch" by auto
  from drain_queue_attached[OF this, of env] ok assms show ?thesis by auto
qed

lemma AttachAndRun_Inr:
  assumes "AttachAndRun env ch lid rid w = Inr w'"
  shows "client (ep w') = client (ep w)"
    and "ids_follow_channel (ep w')"
    and "is_detached_from_channel (ep w) \<Longrightarrow> is_detached_from_channel (ep w')"
    and "\<exists>new. trace w' = trace w @ new \<and> deliveries new = []"
proof -
  let ?w0 = "w\<lparr>ep := (ep w)\<lparr>channel := ch, local_id := lid, remote_id := rid\<rparr>\<rparr>"
  from assms have pre: "ch \<noteq> None" "is_valid lid" "is_valid rid"
    by (auto simp: AttachAndRun_def split: if_splits)
  from assms obtain w1 where d: "drain_queue env ?w0 = Inr w1"
    by (auto simp: AttachAndRun_def split: if_splits sum.splits)
  from drain_queue_Inr[OF d] obtain new where
    w1: "ep w1 = (ep ?w0)\<lparr>channel_message_queue := []\<rparr>" "trace w1 = trace w @ new"
        "deliveries new = []"
    by auto
  have rest: "(case client (ep w1) of
               Some c \<Rightarrow> Inr w1
             | None \<Rightarrow>
                (case channel (ep w1) of
                   None \<Rightarrow> Inl (Null_dereference ''channel_'')
                 | Some ch1 \<Rightarrow>
                     ResetChannelNoLock
                       (emit (DetachEndpoint ch1 (local_id (ep w1)) (remote_id (ep w1))) w1))) = Inr w'"
    using assms d by (auto simp: AttachAndRun_def split: if_splits)
  show "client (ep w') = client (ep w)"
    using rest w1(1)
    by (auto simp: ResetChannelNoLock_def emit_def split: option.splits if_splits)
  show "ids_follow_channel (ep w')"
    using rest w1(1) pre
    by (auto simp: ResetChannelNoLock_def emit_def ids_follow_channel_def
             split: option.splits if_splits)
  show "is_detached_from_channel (ep w) \<Longrightarrow> is_detached_from_channel (ep w')"
    using rest w1(1)
    by (auto simp: ResetChannelNoLock_def emit_def split: option.splits if_splits)
  have "\<exists>more. trace w' = trace w1 @ more \<and> deliveries more = []"
    using rest
    by (auto simp: ResetChannelNoLock_def emit_def split: option.splits if_splits)
  then show "\<exists>new. trace w' = trace w @ new \<and> deliveries new = []"
    using w1(2,3) by auto
qed

text \<open>What every call keeps: the agreement of channel and ids, a set latch, an absent
  client; no call delivers a message to a client.\<close>

lemma perform_ids_follow_channel:
  assumes "perform env c w = Inr w'" "ids_follow_channel (ep w)"
  shows "ids_follow_channel (ep w')"
proof (cases c)
  case (CallAttachAndRun ch lid rid)
  with assms show ?thesis using AttachAndRun_Inr(2) by simp
qed (use assms in \<open>auto simp: EnqueueMessage_def WriteMessageNoLock_def ReplaceClient_def
      DetachFromClient_def DetachFromChannel_def ResetChannelNoLock_def emit_def Let_def
      ids_follow_channel_def split: option.splits if_splits sum.splits\<close>)

lemma perform_keeps_latch:
  assumes "perform env c w = Inr w'" "is_detached_from_channel (ep w)"
  shows "is_detached_from_channel (ep w')"
proof (cases c)
  case (CallAttachAndRun ch lid rid)
  with assms show ?thesis using AttachAndRun_Inr(3) by simp
qed (use assms in \<open>auto simp: EnqueueMessage_def WriteMessageNoLock_def ReplaceClient_def
      DetachFromClient_def DetachFromChannel_def ResetChannelNoLock_def emit_def Let_def
      split: option.splits if_splits sum.splits\<close>)

lemma perform_keeps_no_client:
  assumes "perform env c w = Inr w'" "client (ep w) = None"
  shows "client (ep w') = None"
proof (cases c)
  case (CallAttachAndRun ch lid rid)
  with assms show ?thesis using AttachAndRun_Inr(1) by simp
qed (use assms in \<open>auto simp: EnqueueMessage_def WriteMessageNoLock_def ReplaceClient_def
      DetachFromClient_def DetachFromChannel_def ResetChannelNoLock_def emit_def Let_def
      split: option.splits if_splits sum.splits\<close>)


lemma perform_keeps_no_channel:
  assumes "perform env c w = Inr w'" "channel (ep w) = None" "\<not> is_attach c"
  shows "channel (ep w') = None \<and> written (trace w') = written (trace w)"
  using assms
  by (cases c)
     (auto simp: EnqueueMessage_def ReplaceClient_def DetachFromClient_def DetachFromChannel_def
        emit_def Let_def split: option.splits if_splits sum.splits)

lemma perform_all_keeps_no_client:
  "perform_all env cs w = Inr w' \<Longrightarrow> client (ep w) = None \<Longrightarrow> client (ep w') = None"
  by (induction cs arbitrary: w) (auto split: sum.splits dest: perform_keeps_no_client)

lemma perform_all_keeps_no_channel:
  "perform_all env cs w = Inr w' \<Longrightarrow> channel (ep w) = None \<Longrightarrow> \<forall>c\<in>set cs. \<not> is_attach c \<Longrightarrow>
   channel (ep w') = None \<and> written (trace w') = written (trace w)"
proof (induction cs arbitrary: w)
  case Nil
  then show ?case by simp
next
  case (Cons c cs)
  from Cons.prems(1) obtain w1 where s: "perform env c w = Inr w1" "perform_all env cs w1 = Inr w'"
    by (auto split: sum.splits)
  from perform_keeps_no_channel[OF s(1) Cons.prems(2)] Cons.prems(3)
  have k: "channel (ep w1) = None" "written (trace w1) = written (trace w)" by auto
  from Cons.IH[OF s(2) k(1)] Cons.prems(3) k(2) show ?case by simp
qed


lemma perform_all_ids_follow_channel:
  "perform_all env cs w = Inr w' \<Longrightarrow> ids_follow_channel (ep w) \<Longrightarrow> ids_follow_channel (ep w')"
  by (induction cs arbitrary: w) (auto split: sum.splits dest: perform_ids_follow_channel)

lemma perform_all_keeps_latch:
  "perform_all env cs w = Inr w' \<Longrightarrow> is_detached_from_channel (ep w) \<Longrightarrow>
   is_detached_from_channel (ep w')"
  by (induction cs arbitrary: w) (auto split: sum.splits dest: perform_keeps_latch)









subsection \<open>Sending\<close>

text \<open>
  C1. Messages enqueued with \<open>EnqueueMessage\<close> before the endpoint has a channel are
  handed to the channel by \<open>AttachAndRun\<close> in the order in which they were enqueued
  (behind what the queue held already), and all of them before any message enqueued
  after the attachment. Messages enqueued afterwards are written only when the endpoint
  has a client: without one \<open>AttachAndRun\<close> has detached the endpoint again.
\<close>

theorem queued_messages_written_fifo_at_attach:
  assumes "Unattached (ep w)" "is_valid lid" "is_valid rid"
  shows "\<exists>w' new.
           perform_all env
             (enqueue_calls before @ CallAttachAndRun (Some ch) lid rid # enqueue_calls after) w
             = Inr w' \<and>
           trace w' = trace w @ new \<and>
           written new =
             map (\<lambda>m. (ch, stamp env ch lid rid m))
               (channel_message_queue (ep w) @ before @
                (if client (ep w) = None then [] else after))"
proof -
  let ?w1 = "w\<lparr>ep := (ep w)\<lparr>channel_message_queue := channel_message_queue (ep w) @ before\<rparr>\<rparr>"
  have e1: "perform_all env (enqueue_calls before) w = Inr ?w1"
    using assms(1) by (simp add: enqueue_unattached Unattached_def)
  have u1: "Unattached (ep ?w1)"
    using assms(1) by (simp add: Unattached_def)
  from AttachAndRun_unattached[OF u1 assms(2,3), of env ch]
  obtain w2 new where a: "AttachAndRun env (Some ch) lid rid ?w1 = Inr w2"
      "trace w2 = trace w @ new @ (if client (ep w) = None then [DetachEndpoint ch lid rid] else [])"
      "written new = map (\<lambda>m. (ch, stamp env ch lid rid m)) (channel_message_queue (ep w) @ before)"
      "ep w2 = (if client (ep w) = None
                 then (ep ?w1)\<lparr>channel := None, local_id := invalid_id, remote_id := invalid_id,
                              channel_message_queue := [], is_detached_from_channel := True\<rparr>
                 else (ep ?w1)\<lparr>channel := Some ch, local_id := lid, remote_id := rid,
                              channel_message_queue := []\<rparr>)"
    by auto
  have run: "perform_all env
      (enqueue_calls before @ CallAttachAndRun (Some ch) lid rid # enqueue_calls after) w
      = perform_all env (enqueue_calls after) w2"
    using e1 a(1) by (simp add: perform_all_append)
  show ?thesis
  proof (cases "client (ep w)")
    case None
    have "channel (ep w2) = None" using a(4) None by simp
    from enqueue_unattached[OF this, of env after] obtain w3 where
      w3: "perform_all env (enqueue_calls after) w2 = Inr w3" "trace w3 = trace w2"
      by simp
    have "trace w3 = trace w @ (new @ [DetachEndpoint ch lid rid])"
      using w3(2) a(2) None by simp
    moreover have "written (new @ [DetachEndpoint ch lid rid]) =
        map (\<lambda>m. (ch, stamp env ch lid rid m))
          (channel_message_queue (ep w) @ before @ (if client (ep w) = None then [] else after))"
      using a(3) None by simp
    ultimately show ?thesis using run w3(1) by metis
  next
    case (Some c)
    have att: "channel (ep w2) = Some ch" "is_valid (local_id (ep w2))" "is_valid (remote_id (ep w2))"
      "local_id (ep w2) = lid" "remote_id (ep w2) = rid"
      using a(4) Some assms(2,3) by simp_all
    from enqueue_attached[OF att(1,2,3), of env after] att(4,5)
    obtain w3 new2 where w3: "perform_all env (enqueue_calls after) w2 = Inr w3"
        "trace w3 = trace w2 @ new2"
        "written new2 = map (\<lambda>m. (ch, stamp env ch lid rid m)) after"
      by auto
    have "trace w3 = trace w @ (new @ new2)"
      using w3(2) a(2) Some by simp
    moreover have "written (new @ new2) =
        map (\<lambda>m. (ch, stamp env ch lid rid m))
          (channel_message_queue (ep w) @ before @ (if client (ep w) = None then [] else after))"
      using a(3) w3(3) Some by simp
    ultimately show ?thesis using run w3(1) by metis
  qed
qed

theorem queued_messages_written_fifo_at_attach_witness:
  "Unattached (ep (fresh (Some 1) 0 [])) \<and> is_valid (ChannelEndpointId 1) \<and>
   is_valid (ChannelEndpointId 2) \<and>
   (\<exists>w' new.
      perform_all accepting
        (enqueue_calls [msg 10, msg 11] @
         CallAttachAndRun (Some 7) (ChannelEndpointId 1) (ChannelEndpointId 2) #
         enqueue_calls [msg 12]) (fresh (Some 1) 0 []) = Inr w' \<and>
      trace w' = new \<and>
      written new =
        [(7, stamp accepting 7 (ChannelEndpointId 1) (ChannelEndpointId 2) (msg 10)),
         (7, stamp accepting 7 (ChannelEndpointId 1) (ChannelEndpointId 2) (msg 11)),
         (7, stamp accepting 7 (ChannelEndpointId 1) (ChannelEndpointId 2) (msg 12))])"
proof -
  have u: "Unattached (ep (fresh (Some 1) 0 []))"
    by (simp add: fresh_def Unattached_def)
  have v: "is_valid (ChannelEndpointId 1)" "is_valid (ChannelEndpointId 2)"
    by simp_all
  from queued_messages_written_fifo_at_attach[OF u v, of accepting "[msg 10, msg 11]" 7 "[msg 12]"]
  show ?thesis using u v by (simp add: fresh_def)
qed

text \<open>
  C2. \<open>EnqueueMessage\<close> with a message, on an endpoint without a channel, appends the
  message to the queue and returns true. On an endpoint with a channel (and hence valid
  ids) it sets the source id of the serialized message to \<open>local_id\<close> and its destination
  id to \<open>remote_id\<close>, hands it to the channel's \<open>WriteMessage\<close> and returns what that
  write returned; the fields of the endpoint stay as they were.
\<close>

theorem EnqueueMessage_queues_or_writes:
  "(channel (ep w) = None \<longrightarrow>
      EnqueueMessage env (Some m) w =
        Inr (True, w\<lparr>ep := (ep w)\<lparr>channel_message_queue := channel_message_queue (ep w) @ [m]\<rparr>\<rparr>)) \<and>
   (channel (ep w) = Some ch \<and> ids_follow_channel (ep w) \<longrightarrow>
      (let m' = stamp env ch (local_id (ep w)) (remote_id (ep w)) m;
           r = Channel_WriteMessage env w ch m'
       in EnqueueMessage env (Some m) w = Inr (r, w\<lparr>trace := trace w @ [WriteMessage ch m' r]\<rparr>) \<and>
          source_id m' = local_id (ep w) \<and> destination_id m' = remote_id (ep w) \<and>
          payload m' = payload (SerializeAndCloseDispatchers env ch m)))"
  by (simp add: EnqueueMessage_def AddMessage_def WriteMessageNoLock_attached
        ids_follow_channel_def emit_def Let_def stamp_def)

theorem EnqueueMessage_queues_or_writes_witness:
  "channel (ep (fresh (Some 1) 0 [])) = None \<and>
   EnqueueMessage refusing_writes (Some (msg 10)) (fresh (Some 1) 0 []) =
     Inr (True, fresh (Some 1) 0 [msg 10]) \<and>
   channel (ep (attached (Some 1) 0)) = Some 7 \<and> ids_follow_channel (ep (attached (Some 1) 0)) \<and>
   EnqueueMessage refusing_writes (Some (msg 10)) (attached (Some 1) 0) =
     Inr (False, (attached (Some 1) 0)
            \<lparr>trace := [WriteMessage 7
               \<lparr>payload = 10, source_id = ChannelEndpointId 1, destination_id = ChannelEndpointId 2\<rparr>
               False]\<rparr>)"
  using EnqueueMessage_queues_or_writes[of "fresh (Some 1) 0 []" refusing_writes "msg 10" 7]
        EnqueueMessage_queues_or_writes[of "attached (Some 1) 0" refusing_writes "msg 10" 7]
  by (simp add: fresh_def attached_def ids_follow_channel_def refusing_writes_def msg_def
        stamp_def Let_def)

subsection \<open>Attaching\<close>

text \<open>
  C8. \<open>AttachAndRun\<close> on an endpoint that has never had a channel returns whatever the
  channel answers to the writes: every message of the queue is handed to the channel, in
  queue order, also after a write that failed; every failed write is followed by a
  warning in the log; the queue is empty afterwards. When the endpoint has no client,
  the drain is followed by one \<open>DetachEndpoint\<close> call with the new ids and by the
  reset, which leaves the endpoint detached; when it has one, the endpoint stays attached
  to the channel with the ids given.
\<close>

theorem AttachAndRun_drains_past_failures:
  assumes "Unattached (ep w)" "is_valid lid" "is_valid rid"
  shows "\<exists>w' new.
           AttachAndRun env (Some ch) lid rid w = Inr w' \<and>
           trace w' = trace w @ new @
                      (if client (ep w) = None then [DetachEndpoint ch lid rid] else []) \<and>
           written new = map (\<lambda>m. (ch, stamp env ch lid rid m)) (channel_message_queue (ep w)) \<and>
           failures_logged new \<and>
           channel_message_queue (ep w') = [] \<and>
           (if client (ep w) = None then Detached (ep w')
            else Attached (ep w') \<and> channel (ep w') = Some ch \<and>
                 local_id (ep w') = lid \<and> remote_id (ep w') = rid)"
proof -
  from AttachAndRun_unattached[OF assms, of env ch]
  obtain w' new where a: "AttachAndRun env (Some ch) lid rid w = Inr w'"
      "trace w' = trace w @ new @ (if client (ep w) = None then [DetachEndpoint ch lid rid] else [])"
      "written new = map (\<lambda>m. (ch, stamp env ch lid rid m)) (channel_message_queue (ep w))"
      "failures_logged new"
      "ep w' = (if client (ep w) = None
                 then (ep w)\<lparr>channel := None, local_id := invalid_id, remote_id := invalid_id,
                              channel_message_queue := [], is_detached_from_channel := True\<rparr>
                 else (ep w)\<lparr>channel := Some ch, local_id := lid, remote_id := rid,
                              channel_message_queue := []\<rparr>)"
    by auto
  have "channel_message_queue (ep w') = []"
    using a(5) by simp
  moreover have "if client (ep w) = None then Detached (ep w')
            else Attached (ep w') \<and> channel (ep w') = Some ch \<and>
                 local_id (ep w') = lid \<and> remote_id (ep w') = rid"
    using a(5) assms by (simp add: Detached_def Attached_def Unattached_def)
  ultimately show ?thesis using a(1-4) by blast
qed

theorem AttachAndRun_drains_past_failures_witness:
  "Unattached (ep (fresh None 0 [msg 10, msg 11])) \<and>
   is_valid (ChannelEndpointId 1) \<and> is_valid (ChannelEndpointId 2) \<and>
   (\<exists>w' new.
      AttachAndRun refusing_writes (Some 7) (ChannelEndpointId 1) (ChannelEndpointId 2)
        (fresh None 0 [msg 10, msg 11]) = Inr w' \<and>
      trace w' = new @ [DetachEndpoint 7 (ChannelEndpointId 1) (ChannelEndpointId 2)] \<and>
      written new =
        [(7, \<lparr>payload = 10, source_id = ChannelEndpointId 1, destination_id = ChannelEndpointId 2\<rparr>),
         (7, \<lparr>payload = 11, source_id = ChannelEndpointId 1, destination_id = ChannelEndpointId 2\<rparr>)] \<and>
      failures_logged new \<and> channel_message_queue (ep w') = [] \<and> Detached (ep w'))"
proof -
  have u: "Unattached (ep (fresh None 0 [msg 10, msg 11]))"
    by (simp add: fresh_def Unattached_def)
  have v: "is_valid (ChannelEndpointId 1)" "is_valid (ChannelEndpointId 2)"
    by simp_all
  from AttachAndRun_drains_past_failures[OF u v, of refusing_writes 7]
  show ?thesis using u v
    by (simp add: fresh_def stamp_def refusing_writes_def msg_def)
qed

subsection \<open>The client side\<close>

text \<open>
  C6. \<open>DetachFromClient\<close> on an endpoint that has a client and is attached to a channel
  clears the client, calls the channel's \<open>DetachEndpoint\<close> once, with the endpoint's
  \<open>local_id\<close> and \<open>remote_id\<close>, makes no other call, and resets the channel side: the
  endpoint is detached, with both ids invalid. On an endpoint that has a client and no
  channel it clears the client and does nothing else.
\<close>

theorem DetachFromClient_unregisters_once:
  assumes "client (ep w) \<noteq> None"
  shows "(channel (ep w) = Some ch \<and> Attached (ep w) \<longrightarrow>
            (\<exists>w'. DetachFromClient w = Inr w' \<and>
               trace w' = trace w @ [DetachEndpoint ch (local_id (ep w)) (remote_id (ep w))] \<and>
               ep w' = (ep w)\<lparr>client := None, channel := None, local_id := invalid_id,
                               remote_id := invalid_id, is_detached_from_channel := True\<rparr> \<and>
               client (ep w') = None \<and> Detached (ep w'))) \<and>
         (channel (ep w) = None \<longrightarrow>
            DetachFromClient w = Inr (w\<lparr>ep := (ep w)\<lparr>client := None\<rparr>\<rparr>))"
  using assms
  by (auto simp: DetachFromClient_def ResetChannelNoLock_def emit_def Attached_def Detached_def
        Let_def)

theorem DetachFromClient_unregisters_once_witness:
  "client (ep (attached (Some 1) 0)) \<noteq> None \<and> channel (ep (attached (Some 1) 0)) = Some 7 \<and>
   Attached (ep (attached (Some 1) 0)) \<and>
   (\<exists>w'. DetachFromClient (attached (Some 1) 0) = Inr w' \<and>
      trace w' = [DetachEndpoint 7 (ChannelEndpointId 1) (ChannelEndpointId 2)] \<and>
      client (ep w') = None \<and> Detached (ep w')) \<and>
   client (ep (fresh (Some 1) 0 [])) \<noteq> None \<and> channel (ep (fresh (Some 1) 0 [])) = None \<and>
   DetachFromClient (fresh (Some 1) 0 []) = Inr (fresh None 0 [])"
proof -
  have a: "client (ep (attached (Some 1) 0)) \<noteq> None" "channel (ep (attached (Some 1) 0)) = Some 7"
      "Attached (ep (attached (Some 1) 0))"
    by (simp_all add: attached_def Attached_def)
  have f: "client (ep (fresh (Some 1) 0 [])) \<noteq> None" "channel (ep (fresh (Some 1) 0 [])) = None"
    by (simp_all add: fresh_def)
  from DetachFromClient_unregisters_once[OF a(1), of 7] a(2,3)
  obtain w' where w': "DetachFromClient (attached (Some 1) 0) = Inr w'"
      "trace w' = trace (attached (Some 1) 0) @
         [DetachEndpoint 7 (local_id (ep (attached (Some 1) 0))) (remote_id (ep (attached (Some 1) 0)))]"
      "client (ep w') = None" "Detached (ep w')"
    by blast
  from w'(2) have "trace w' = [DetachEndpoint 7 (ChannelEndpointId 1) (ChannelEndpointId 2)]"
    by (simp add: attached_def)
  with w'(1,3,4)
  have 1: "\<exists>w'. DetachFromClient (attached (Some 1) 0) = Inr w' \<and>
      trace w' = [DetachEndpoint 7 (ChannelEndpointId 1) (ChannelEndpointId 2)] \<and>
      client (ep w') = None \<and> Detached (ep w')"
    by blast
  from DetachFromClient_unregisters_once[OF f(1), of 7] f(2)
  have 2: "DetachFromClient (fresh (Some 1) 0 []) = Inr (fresh None 0 [])"
    by (simp add: fresh_def)
  from a f 1 2 show ?thesis by simp
qed

text \<open>
  C7, as stated, fails: on an endpoint that has a client and has never been attached to a
  channel, \<open>ReplaceClient\<close> returns true although no channel is attached.
\<close>

theorem ReplaceClient_true_without_channel:
  "ReplaceClient (Some 2) 1 (fresh (Some 1) 0 []) = Inr (True, fresh (Some 2) 1 []) \<and>
   channel (ep (fresh (Some 1) 0 [])) = None"
  by (simp add: ReplaceClient_def fresh_def)

text \<open>
  C7, amended. \<open>ReplaceClient\<close> with a client, on an endpoint that has a client, with a
  pair of client and port that differs from the current one, stores the new client and
  port and returns whether the detached latch is still unset: true on an endpoint that is
  attached to a channel and on one that has not been attached yet, false exactly when the
  channel side has already been torn down.
\<close>

theorem ReplaceClient_returns_not_detached:
  assumes "client (ep w) \<noteq> None" "Some c \<noteq> client (ep w) \<or> port \<noteq> client_port (ep w)"
  shows "\<exists>r. ReplaceClient (Some c) port w =
                Inr (r, w\<lparr>ep := (ep w)\<lparr>client := Some c, client_port := port\<rparr>\<rparr>) \<and>
              r = (\<not> is_detached_from_channel (ep w)) \<and>
              (Attached (ep w) \<longrightarrow> r) \<and> (Unattached (ep w) \<longrightarrow> r) \<and> (Detached (ep w) \<longrightarrow> \<not> r)"
  using assms
  by (auto simp: ReplaceClient_def Attached_def Unattached_def Detached_def)

theorem ReplaceClient_returns_not_detached_witness:
  "client (ep (attached (Some 1) 0)) = Some 1 \<and> client_port (ep (attached (Some 1) 0)) = 0 \<and>
   Attached (ep (attached (Some 1) 0)) \<and>
   ReplaceClient (Some 1) 5 (attached (Some 1) 0) = Inr (True, attached (Some 1) 5) \<and>
   client (ep detached_by_channel) = Some 1 \<and> Detached (ep detached_by_channel) \<and>
   (\<exists>w'. ReplaceClient (Some 2) 0 detached_by_channel = Inr (False, w') \<and>
         client (ep w') = Some 2)"
proof -
  have a: "client (ep (attached (Some 1) 0)) = Some 1" "client_port (ep (attached (Some 1) 0)) = 0"
      "Attached (ep (attached (Some 1) 0))"
    by (simp_all add: attached_def Attached_def)
  have d: "client (ep detached_by_channel) = Some 1" "Detached (ep detached_by_channel)"
    by (simp_all add: detached_by_channel_def Detached_def)
  have a1: "client (ep (attached (Some 1) 0)) \<noteq> None"
      "Some 1 \<noteq> client (ep (attached (Some 1) 0)) \<or> 5 \<noteq> client_port (ep (attached (Some 1) 0))"
    using a by simp_all
  have d1: "client (ep detached_by_channel) \<noteq> None"
      "Some 2 \<noteq> client (ep detached_by_channel) \<or> 0 \<noteq> client_port (ep detached_by_channel)"
    using d by simp_all
  from ReplaceClient_returns_not_detached[OF a1] a(3)
  have 1: "ReplaceClient (Some 1) 5 (attached (Some 1) 0) = Inr (True, attached (Some 1) 5)"
    by (auto simp: attached_def)
  from ReplaceClient_returns_not_detached[OF d1] d(2)
  have 2: "\<exists>w'. ReplaceClient (Some 2) 0 detached_by_channel = Inr (False, w') \<and>
         client (ep w') = Some 2"
    by auto
  from a d 1 2 show ?thesis by simp
qed

subsection \<open>The channel side\<close>

text \<open>
  C4, as stated, fails: when the client stays attached, a second \<open>DetachFromChannel\<close>
  calls the client's \<open>OnDetachFromChannel\<close> a second time.
\<close>

theorem second_DetachFromChannel_notifies_again:
  "perform_all accepting [CallDetachFromChannel, CallDetachFromChannel] (attached (Some 1) 0) =
     Inr (detached_by_channel
            \<lparr>trace := [ClientOnDetachFromChannel 1 0, ClientOnDetachFromChannel 1 0]\<rparr>)"
  by (simp add: DetachFromChannel_def ResetChannelNoLock_def emit_def attached_def
        detached_by_channel_def Let_def)

text \<open>
  C4, amended. After a detach that has completed, by \<open>DetachFromChannel\<close> or by
  \<open>DetachFromClient\<close> on an endpoint with a channel, the endpoint is detached: no
  channel, invalid ids, the latch set. A further \<open>DetachFromChannel\<close> fails no check and
  leaves every field of the endpoint as it found it. It calls \<open>OnDetachFromChannel\<close>
  again exactly when the endpoint still has a client (so never after
  \<open>DetachFromClient\<close>), on that client and with the stored port.
\<close>

theorem DetachFromChannel_again_keeps_state:
  assumes "ids_follow_channel (ep w)"
    and "DetachFromChannel w = Inr w1 \<or> (channel (ep w) \<noteq> None \<and> DetachFromClient w = Inr w1)"
  shows "Detached (ep w1) \<and>
         (\<exists>w2. DetachFromChannel w1 = Inr w2 \<and> ep w2 = ep w1 \<and>
            trace w2 = trace w1 @
              (case client (ep w1) of None \<Rightarrow> []
               | Some c \<Rightarrow> [ClientOnDetachFromChannel c (client_port (ep w1))]))"
proof -
  have d: "Detached (ep w1)"
    using assms
    by (auto simp: DetachFromChannel_def DetachFromClient_def ResetChannelNoLock_def emit_def
          Let_def Detached_def ids_follow_channel_def split: if_splits option.splits sum.splits)
  then have "\<exists>w2. DetachFromChannel w1 = Inr w2 \<and> ep w2 = ep w1 \<and>
            trace w2 = trace w1 @
              (case client (ep w1) of None \<Rightarrow> []
               | Some c \<Rightarrow> [ClientOnDetachFromChannel c (client_port (ep w1))])"
    by (auto simp: DetachFromChannel_def Detached_def emit_def Let_def split: option.splits)
  with d show ?thesis by simp
qed

theorem DetachFromChannel_again_keeps_state_witness:
  "ids_follow_channel (ep (attached (Some 1) 0)) \<and>
   channel (ep (attached (Some 1) 0)) \<noteq> None \<and>
   DetachFromClient (attached (Some 1) 0) = Inr detached_by_client \<and>
   Detached (ep detached_by_client) \<and>
   DetachFromChannel detached_by_client = Inr detached_by_client"
proof -
  have a: "ids_follow_channel (ep (attached (Some 1) 0))"
    by (simp add: attached_def ids_follow_channel_def)
  have b: "channel (ep (attached (Some 1) 0)) \<noteq> None"
    by (simp add: attached_def)
  have c: "DetachFromClient (attached (Some 1) 0) = Inr detached_by_client"
    by (simp add: attached_def detached_by_client_def DetachFromClient_def
          ResetChannelNoLock_def emit_def)
  from DetachFromChannel_again_keeps_state[OF a, of detached_by_client] b c
  obtain w2 where w2: "Detached (ep detached_by_client)"
      "DetachFromChannel detached_by_client = Inr w2" "ep w2 = ep detached_by_client"
      "trace w2 = trace detached_by_client @
         (case client (ep detached_by_client) of None \<Rightarrow> []
          | Some c \<Rightarrow> [ClientOnDetachFromChannel c (client_port (ep detached_by_client))])"
    by auto
  from w2(4) have "trace w2 = trace detached_by_client"
    by (simp add: detached_by_client_def)
  with w2(3) have "w2 = detached_by_client" by simp
  with w2(1,2) a b c show ?thesis by simp
qed

text \<open>Once \<open>DetachFromClient\<close> has completed, whatever calls follow, and once
  \<open>DetachFromChannel\<close> has completed, whatever calls other than \<open>AttachAndRun\<close> follow,
  \<open>OnReadMessage\<close> returns at its first look at the endpoint, whatever other threads do
  meanwhile: no check fails, no client is called, and neither the endpoint nor the trace
  changes.\<close>

lemma OnReadMessage_noop_while_not_reattached:
  assumes "DetachFromClient w0 = Inr w1 \<or>
           (DetachFromChannel w0 = Inr w1 \<and> (\<forall>c\<in>set cs. \<not> is_attach c))"
    and "perform_all env cs w1 = Inr w"
  shows "OnReadMessage env sched message w = Inr w"
proof -
  have "channel (ep w) = None \<or> client (ep w) = None"
    using assms(1)
  proof
    assume "DetachFromClient w0 = Inr w1"
    then have "client (ep w1) = None"
      by (auto simp: DetachFromClient_def ResetChannelNoLock_def emit_def Let_def
            split: if_splits option.splits)
    with perform_all_keeps_no_client[OF assms(2)] show ?thesis
      by simp
  next
    assume a: "DetachFromChannel w0 = Inr w1 \<and> (\<forall>c\<in>set cs. \<not> is_attach c)"
    then have "channel (ep w1) = None"
      by (auto simp: DetachFromChannel_def ResetChannelNoLock_def emit_def Let_def
            split: if_splits option.splits sum.splits)
    with perform_all_keeps_no_channel[OF assms(2)] a show ?thesis
      by simp
  qed
  then show ?thesis
    unfolding OnReadMessage_def
    by (subst OnReadMessage_loop.simps) auto
qed

text \<open>
  C9. After \<open>DetachFromChannel\<close> has completed, \<open>OnReadMessage\<close> should deliver nothing.
  But \<open>OnReadMessage\<close> looks at the channel and the client only, and \<open>AttachAndRun\<close>
  does not look at the latch: after a later \<open>AttachAndRun\<close> on the detached endpoint,
  which passes every check the method has, \<open>OnReadMessage\<close> calls the client with the
  message, and the client accepts it.
\<close>

theorem OnReadMessage_delivers_after_reattach:
  "perform_all accepting
     [CallAttachAndRun (Some 7) (ChannelEndpointId 1) (ChannelEndpointId 2),
      CallDetachFromChannel] (fresh (Some 1) 0 []) = Inr detached_by_channel \<and>
   perform_all accepting
     [CallAttachAndRun (Some 8) (ChannelEndpointId 3) (ChannelEndpointId 4)]
     detached_by_channel = Inr reattached \<and>
   OnReadMessage accepting [] (msg 10) reattached =
     Inr (reattached\<lparr>trace := [ClientOnDetachFromChannel 1 0,
                                   ClientOnReadMessage 1 0 (msg 10) True]\<rparr>)"
  by (simp add: OnReadMessage_def OnReadMessage_loop.simps window_def AttachAndRun_def
        DetachFromChannel_def ResetChannelNoLock_def fresh_def detached_by_channel_def
        reattached_def accepting_def IsEmpty_def emit_def invalid_id_def Let_def)

text \<open>An endpoint that was attached to a channel and then detached from it, by
  \<open>DetachFromChannel\<close> or by \<open>DetachFromClient\<close>, is detached: the latch is set and the
  channel is absent. \<open>EnqueueMessage\<close> on it still returns true and appends the message
  to the queue, and no later call other than \<open>AttachAndRun\<close> hands anything to a
  channel.\<close>

lemma EnqueueMessage_after_detach_queues:
  assumes "Unattached (ep w0)" "is_valid lid" "is_valid rid"
    and "AttachAndRun env (Some ch) lid rid w0 = Inr w1"
    and "DetachFromChannel w1 = Inr w \<or> DetachFromClient w1 = Inr w"
  shows "is_detached_from_channel (ep w) \<and> channel (ep w) = None \<and>
         (\<exists>w'. EnqueueMessage env (Some m) w = Inr (True, w') \<and>
            ep w' = (ep w)\<lparr>channel_message_queue := channel_message_queue (ep w) @ [m]\<rparr> \<and>
            trace w' = trace w \<and>
            (\<forall>cs w''. (\<forall>c\<in>set cs. \<not> is_attach c) \<and> perform_all env cs w' = Inr w'' \<longrightarrow>
               written (trace w'') = written (trace w)))"
proof -
  from AttachAndRun_unattached[OF assms(1,2,3), of env ch] assms(4)
  have w1: "ep w1 = (if client (ep w0) = None
                 then (ep w0)\<lparr>channel := None, local_id := invalid_id, remote_id := invalid_id,
                              channel_message_queue := [], is_detached_from_channel := True\<rparr>
                 else (ep w0)\<lparr>channel := Some ch, local_id := lid, remote_id := rid,
                              channel_message_queue := []\<rparr>)"
    by auto
  have d: "is_detached_from_channel (ep w) \<and> channel (ep w) = None"
  proof (cases "client (ep w0)")
    case None
    with w1 assms(5) show ?thesis
      by (auto simp: DetachFromChannel_def DetachFromClient_def emit_def Let_def
            split: if_splits option.splits)
  next
    case (Some c)
    with w1 assms(1,2,3,5) show ?thesis
      by (auto simp: DetachFromChannel_def DetachFromClient_def ResetChannelNoLock_def emit_def
            Let_def Unattached_def split: if_splits option.splits)
  qed
  let ?w' = "w\<lparr>ep := (ep w)\<lparr>channel_message_queue := channel_message_queue (ep w) @ [m]\<rparr>\<rparr>"
  have e: "EnqueueMessage env (Some m) w = Inr (True, ?w')"
    using d by (simp add: EnqueueMessage_def AddMessage_def)
  have n: "channel (ep ?w') = None" using d by simp
  have "\<forall>cs w''. (\<forall>c\<in>set cs. \<not> is_attach c) \<and> perform_all env cs ?w' = Inr w'' \<longrightarrow>
               written (trace w'') = written (trace w)"
    using perform_all_keeps_no_channel[OF _ n] by fastforce
  with d e show ?thesis by simp
qed

text \<open>
  C10. On an endpoint that was attached and then detached from the channel,
  \<open>EnqueueMessage\<close> returns true and appends the message to the queue. The endpoint
  should never be attached again and the message never be written; but \<open>AttachAndRun\<close>
  does not look at the latch, so a later \<open>AttachAndRun\<close> attaches the detached endpoint
  to channel 8 and hands the queued message to that channel, with the new ids.
\<close>

theorem queued_after_detach_is_written_at_reattach:
  "perform_all accepting
     [CallAttachAndRun (Some 7) (ChannelEndpointId 1) (ChannelEndpointId 2),
      CallDetachFromChannel] (fresh (Some 1) 0 []) = Inr detached_by_channel \<and>
   is_detached_from_channel (ep detached_by_channel) \<and> channel (ep detached_by_channel) = None \<and>
   EnqueueMessage accepting (Some (msg 10)) detached_by_channel =
     Inr (True, detached_by_channel
                  \<lparr>ep := (ep detached_by_channel)\<lparr>channel_message_queue := [msg 10]\<rparr>\<rparr>) \<and>
   AttachAndRun accepting (Some 8) (ChannelEndpointId 3) (ChannelEndpointId 4)
     (detached_by_channel
        \<lparr>ep := (ep detached_by_channel)\<lparr>channel_message_queue := [msg 10]\<rparr>\<rparr>) =
     Inr (reattached
            \<lparr>trace := [ClientOnDetachFromChannel 1 0,
                        WriteMessage 8
                          \<lparr>payload = 10, source_id = ChannelEndpointId 3,
                             destination_id = ChannelEndpointId 4\<rparr> True]\<rparr>)"
  by (simp add: EnqueueMessage_def AddMessage_def AttachAndRun_def DetachFromChannel_def
        ResetChannelNoLock_def WriteMessageNoLock_def IsEmpty_def
        GetMessage_def fresh_def detached_by_channel_def reattached_def accepting_def msg_def
        emit_def invalid_id_def Let_def)

subsection \<open>The invariants\<close>

text \<open>
  C5. Every call keeps the agreement of channel and ids, and none clears the latch
  (\<open>perform_ids_follow_channel\<close>, \<open>perform_keeps_latch\<close>). But \<open>AttachAndRun\<close> checks
  only that the channel is absent and the ids are invalid, not the latch: on an endpoint
  that was attached and detached it stores the new channel and ids and returns, with the
  latch still set. The next reset then fails the check of \<open>ResetChannelNoLock\<close> that the
  latch is unset.
\<close>

theorem AttachAndRun_reattaches_detached_endpoint:
  "perform_all accepting
     [CallAttachAndRun (Some 7) (ChannelEndpointId 1) (ChannelEndpointId 2),
      CallDetachFromChannel,
      CallAttachAndRun (Some 8) (ChannelEndpointId 3) (ChannelEndpointId 4)]
     (fresh (Some 1) 0 []) =
     Inr \<lparr>ep = \<lparr>client = Some 1, client_port = 0, channel = Some 8,
                local_id = ChannelEndpointId 3, remote_id = ChannelEndpointId 4,
                channel_message_queue = [], is_detached_from_channel = True\<rparr>,
          trace = [ClientOnDetachFromChannel 1 0]\<rparr> \<and>
   perform_all accepting
     [CallAttachAndRun (Some 7) (ChannelEndpointId 1) (ChannelEndpointId 2),
      CallDetachFromChannel,
      CallAttachAndRun (Some 8) (ChannelEndpointId 3) (ChannelEndpointId 4),
      CallDetachFromClient]
     (fresh (Some 1) 0 []) = Inl (DCHECK_failed ''!is_detached_from_channel_'')"
  by (simp add: AttachAndRun_def DetachFromChannel_def DetachFromClient_def
        ResetChannelNoLock_def fresh_def IsEmpty_def emit_def invalid_id_def Let_def)

subsection \<open>Delivery\<close>




end
